theory Spec2Isabelle
  imports Main "HOL-Library.AList"
begin

section \<open>Values, records and query conditions\<close>

text \<open>
  A record of the adapter is a JavaScript object from field names to values. It is an
  association list here, in insertion order, read with \<open>map_of\<close>; a field that is
  missing reads as \<open>None\<close>, which is the \<open>undefined\<close> of the source. Stored values
  are the JSON scalars. What the ORM hands back is either a plain object or an instance
  of the model; both carry data values, and only an instance has \<open>toJSON()\<close>, which
  gives the plain object of its data values.
\<close>

datatype jsval = JNull | JBool bool | JNum int | JStr string

type_synonym row = "(string \<times> jsval) list"

datatype item = Plain row | Instance row

fun dataValues :: "item \<Rightarrow> row" where
  "dataValues (Plain r) = r"
| "dataValues (Instance r) = r"

definition toJSON :: "item \<Rightarrow> item" where
  "toJSON it = Plain (dataValues it)"

definition keys :: "item \<Rightarrow> string list" where
  \<comment> \<open>\<open>Object.keys\<close>\<close>
  "keys it = remdups (map fst (dataValues it))"

definition assign :: "('k \<times> 'v) list \<Rightarrow> ('k \<times> 'v) list \<Rightarrow> ('k \<times> 'v) list" where
  \<comment> \<open>\<open>Object.assign(target, source)\<close>: the source's entries win\<close>
  "assign target source = AList.merge target source"

definition omit :: "row \<Rightarrow> string \<Rightarrow> row" where
  \<comment> \<open>\<open>lodash.omit(object, key)\<close>\<close>
  "omit r k = AList.delete k r"

definition pick :: "string list \<Rightarrow> row \<Rightarrow> row" where
  \<comment> \<open>\<open>lodash pick(object, ...fields)\<close>: the named fields that the object has\<close>
  "pick fs r = List.map_filter (\<lambda>k. map_option (Pair k) (map_of r k)) (remdups fs)"

fun truthy_value :: "jsval option \<Rightarrow> bool" where
  "truthy_value None = False"
| "truthy_value (Some JNull) = False"
| "truthy_value (Some (JBool b)) = b"
| "truthy_value (Some (JNum n)) = (n \<noteq> 0)"
| "truthy_value (Some (JStr s)) = (s \<noteq> [])"

text \<open>
  The comparison operators of a query. \<open>In\<close> carries the list the source builds in
  \<open>patch\<close> from \<open>current[this.id]\<close>, whose items can be \<open>undefined\<close>; as in SQL, a
  null is in no list.
\<close>

datatype cond = Eq jsval | Ne jsval | In "jsval option list" | Gt int | Lt int

type_synonym where_clause = "(string \<times> cond) list"

fun holds :: "cond \<Rightarrow> jsval option \<Rightarrow> bool" where
  "holds (Eq v) x = (x = Some v)"
| "holds (Ne v) x = (case x of None \<Rightarrow> False | Some u \<Rightarrow> u \<noteq> v)"
| "holds (In vs) x = (case x of None \<Rightarrow> False | Some u \<Rightarrow> u \<noteq> JNull \<and> Some u \<in> set vs)"
| "holds (Gt n) x = (case x of Some (JNum m) \<Rightarrow> n < m | _ \<Rightarrow> False)"
| "holds (Lt n) x = (case x of Some (JNum m) \<Rightarrow> m < n | _ \<Rightarrow> False)"

definition matches :: "where_clause \<Rightarrow> row \<Rightarrow> bool" where
  "matches w r = list_all (\<lambda>(k, c). holds c (map_of r k)) w"

section \<open>Errors\<close>

datatype message = NoRecordFor jsval | Text string

datatype orm_condition = UniqueConstraint | Validation | EmptyResult | DatabaseError

datatype error =
    NotFound message
  | BadRequest message
  | Conflict message
  | SequelizeError orm_condition message

definition errorHandler :: "error \<Rightarrow> error" where
  \<comment> \<open>Modelled from the spec: \<open>utils.errorHandler\<close> of \<open>src/utils.js\<close> is missing. The single
      translation step maps the ORM's unique, validation and not-found conditions to the
      generic kinds conflict, bad request and not found, and rethrows whatever else it is
      given: the adapter's own errors, and the ORM's other errors as they are.\<close>
  "errorHandler e =
     (case e of
        SequelizeError UniqueConstraint m \<Rightarrow> Conflict m
      | SequelizeError Validation m \<Rightarrow> BadRequest m
      | SequelizeError EmptyResult m \<Rightarrow> NotFound m
      | _ \<Rightarrow> e)"

section \<open>The ORM model behind the adapter\<close>

text \<open>
  The ORM is an external collaborator. Its model is a table held in memory: a list of
  rows in storage order under a primary key, with the calls the adapter makes recorded
  in order, so that what an operation reads and writes can be stated. A read rejects
  with a database error when its where option holds a key that is no comparison on a
  column; an insert rejects when the primary key it brings is taken, and the database
  gives a key to a row that brings none. Connection failures and other constraints are
  outside the adapter and are not represented.
\<close>

record find_options =
  fo_where :: where_clause
  fo_unknown :: "string list"
  fo_order :: "(string \<times> bool) list"
  fo_limit :: "nat option"
  fo_offset :: "nat option"
  fo_raw :: bool
  fo_attributes :: "string list option"

datatype orm_call =
    FindAndCount find_options
  | FindAll where_clause
  | FindById jsval
  | Create row
  | BulkCreate "row list"
  | Update row where_clause bool
  | InstanceUpdate jsval row
  | Destroy where_clause

record model =
  primaryKey :: string
  dialect :: string

record database =
  rows :: "row list"
  calls :: "orm_call list"

definition called :: "orm_call \<Rightarrow> database \<Rightarrow> database" where
  "called c d = d\<lparr>calls := calls d @ [c]\<rparr>"

subsection \<open>Ordering of rows\<close>

fun str_le :: "string \<Rightarrow> string \<Rightarrow> bool" where
  "str_le [] ys = True"
| "str_le (x # xs) [] = False"
| "str_le (x # xs) (y # ys) =
     (if x = y then str_le xs ys else (of_char x :: nat) < of_char y)"

fun rank :: "jsval option \<Rightarrow> nat" where
  "rank None = 0"
| "rank (Some JNull) = 0"
| "rank (Some (JBool b)) = 1"
| "rank (Some (JNum n)) = 2"
| "rank (Some (JStr s)) = 3"

fun val_le :: "jsval option \<Rightarrow> jsval option \<Rightarrow> bool" where
  "val_le (Some (JBool a)) (Some (JBool b)) = (a \<le> b)"
| "val_le (Some (JNum a)) (Some (JNum b)) = (a \<le> b)"
| "val_le (Some (JStr a)) (Some (JStr b)) = str_le a b"
| "val_le x y = (rank x \<le> rank y)"

fun row_le :: "(string \<times> bool) list \<Rightarrow> row \<Rightarrow> row \<Rightarrow> bool" where
  "row_le [] a b = True"
| "row_le ((k, asc) # ks) a b =
     (if map_of a k = map_of b k then row_le ks a b
      else if asc then val_le (map_of a k) (map_of b k)
      else val_le (map_of b k) (map_of a k))"

fun insort_by :: "('a \<Rightarrow> 'a \<Rightarrow> bool) \<Rightarrow> 'a \<Rightarrow> 'a list \<Rightarrow> 'a list" where
  "insort_by le x [] = [x]"
| "insort_by le x (y # ys) = (if le x y then x # y # ys else y # insort_by le x ys)"

definition sort_by :: "('a \<Rightarrow> 'a \<Rightarrow> bool) \<Rightarrow> 'a list \<Rightarrow> 'a list" where
  "sort_by le xs = foldr (insort_by le) xs []"

subsection \<open>Reads\<close>

definition wrap :: "bool \<Rightarrow> row \<Rightarrow> item" where
  \<comment> \<open>with \<open>raw\<close> the ORM hands back plain objects, without it instances\<close>
  "wrap rw r = (if rw then Plain r else Instance r)"

definition select_rows :: "find_options \<Rightarrow> row list \<Rightarrow> item list" where
  "select_rows q rs =
     (let found = filter (matches (fo_where q)) rs;
          ordered = sort_by (row_le (fo_order q)) found;
          skipped = (case fo_offset q of None \<Rightarrow> ordered | Some n \<Rightarrow> drop n ordered);
          limited = (case fo_limit q of None \<Rightarrow> skipped | Some n \<Rightarrow> take n skipped);
          shown = (case fo_attributes q of None \<Rightarrow> limited | Some fs \<Rightarrow> map (pick fs) limited)
      in map (wrap (fo_raw q)) shown)"

definition unknown_column :: "string list \<Rightarrow> error" where
  "unknown_column ks = SequelizeError DatabaseError (Text (''no such column: '' @ hd ks))"

definition findAndCount ::
  "find_options \<Rightarrow> database \<Rightarrow> database \<times> (error + nat \<times> item list)" where
  "findAndCount q d =
     (called (FindAndCount q) d,
      if fo_unknown q \<noteq> [] then Inl (unknown_column (fo_unknown q))
      else Inr (length (filter (matches (fo_where q)) (rows d)), select_rows q (rows d)))"

definition findAll :: "find_options \<Rightarrow> database \<Rightarrow> database \<times> (error + item list)" where
  "findAll q d =
     (called (FindAll (fo_where q)) d,
      if fo_unknown q \<noteq> [] then Inl (unknown_column (fo_unknown q))
      else Inr (select_rows q (rows d)))"

definition findById :: "model \<Rightarrow> bool \<Rightarrow> jsval \<Rightarrow> database \<Rightarrow> database \<times> item option" where
  \<comment> \<open>\<open>Model.findById(id, {raw})\<close>: looks the row up by the model's primary key; a null
      key finds nothing\<close>
  "findById m rw i d =
     (called (FindById i) d,
      if i = JNull then None
      else map_option (wrap rw) (List.find (\<lambda>r. map_of r (primaryKey m) = Some i) (rows d)))"

subsection \<open>Inserts\<close>









subsection \<open>Updates and deletes\<close>

definition orm_update ::
  "row \<Rightarrow> where_clause \<Rightarrow> bool \<Rightarrow> bool \<Rightarrow> database \<Rightarrow> database \<times> nat \<times> item list" where
  \<comment> \<open>\<open>Model.update(values, {where, returning, raw})\<close>: sets the values on every matching
      row; the affected rows come back only when \<open>returning\<close> is set\<close>
  "orm_update vals w returning rw d =
     (let affected = map (\<lambda>r. assign r vals) (filter (matches w) (rows d))
      in (called (Update vals w returning)
            (d\<lparr>rows := map (\<lambda>r. if matches w r then assign r vals else r) (rows d)\<rparr>),
          length affected,
          if returning then map (wrap rw) affected else []))"

fun save_first :: "(row \<Rightarrow> bool) \<Rightarrow> (row \<Rightarrow> row) \<Rightarrow> row list \<Rightarrow> row list" where
  "save_first P f [] = []"
| "save_first P f (r # rs) = (if P r then f r # rs else r # save_first P f rs)"

definition instance_update ::
  "model \<Rightarrow> bool \<Rightarrow> jsval \<Rightarrow> item \<Rightarrow> row \<Rightarrow> database \<Rightarrow> database \<times> item" where
  \<comment> \<open>\<open>instance.update(values, {raw})\<close> on the instance that \<open>findById\<close> returned for the
      key. With \<open>raw\<close> the values are put on the instance as they are and count as
      unchanged, so nothing is saved. Without it the values are set through the
      instance's setters, which leave a primary key that is set as it is, and the row is
      saved.\<close>
  "instance_update m rw i inst vals d =
     (if rw then (called (InstanceUpdate i vals) d, Instance (assign (dataValues inst) vals))
      else
        (let kept = (if truthy_value (map_of (dataValues inst) (primaryKey m))
                     then omit vals (primaryKey m) else vals)
         in (called (InstanceUpdate i vals)
               (d\<lparr>rows := save_first (\<lambda>r. map_of r (primaryKey m) = Some i)
                                      (\<lambda>r. assign r kept) (rows d)\<rparr>),
             Instance (assign (dataValues inst) kept))))"

definition destroy :: "where_clause \<Rightarrow> database \<Rightarrow> database \<times> nat" where
  "destroy w d =
     (called (Destroy w) (d\<lparr>rows := filter (\<lambda>r. \<not> matches w r) (rows d)\<rparr>),
      length (filter (matches w) (rows d)))"

section \<open>Parameters and the service\<close>

record paginate =
  pg_default :: "nat option"
  pg_max :: "nat option"

text \<open>
  \<open>params.query\<close>: the control keys, already parsed, and the comparisons on fields. An
  absent query is the empty one, as the source reads it everywhere
  (\<open>params.query || {}\<close>).
\<close>

record query =
  q_sort :: "(string \<times> bool) list option"
  q_limit :: "nat option"
  q_skip :: "nat option"
  q_select :: "string list option"
  q_conds :: where_clause

record filters =
  f_sort :: "(string \<times> bool) list option"
  f_limit :: "nat option"
  f_skip :: "nat option"
  f_select :: "string list option"

text \<open>
  \<open>params.sequelize\<close>, the options passed through to the ORM: those that the adapter
  reads itself (\<open>raw\<close>, and whether \<open>include\<close> is set) and those that replace the
  options the adapter builds for a read when they are merged over them.
\<close>

record sequelize_options =
  s_raw :: "bool option"
  s_include :: bool
  s_where :: "where_clause option"
  s_order :: "(string \<times> bool) list option"
  s_limit :: "nat option"
  s_offset :: "nat option"
  s_attributes :: "string list option"

record params =
  p_query :: query
  p_paginate :: "paginate option"
  p_sequelize :: sequelize_options
  p_returning :: "bool option"

record service =
  paginate :: paginate
  Model :: model
  idField :: string
  events :: "string list option"
  raw :: bool

record options =
  o_paginate :: "paginate option"
  o_Model :: "model option"
  o_id :: "string option"
  o_events :: "string list option"
  o_raw :: "bool option"

datatype construction_error = OptionsMissing | ModelMissing

definition init :: "options option \<Rightarrow> construction_error + service" where
  "init opts =
     (case opts of
        None \<Rightarrow> Inl OptionsMissing
      | Some options \<Rightarrow>
          (case o_Model options of
             None \<Rightarrow> Inl ModelMissing
           | Some m \<Rightarrow>
               Inr \<lparr> paginate = (case o_paginate options of
                                   None \<Rightarrow> \<lparr>pg_default = None, pg_max = None\<rparr>
                                 | Some p \<Rightarrow> p),
                     Model = m,
                     idField = (case o_id options of
                                  None \<Rightarrow> ''id''
                                | Some s \<Rightarrow> if s = [] then ''id'' else s),
                     events = o_events options,
                     raw = (o_raw options \<noteq> Some False) \<rparr>))"

subsection \<open>Query filters and field selection (external libraries)\<close>

definition truthy :: "nat option \<Rightarrow> bool" where
  "truthy n = (case n of None \<Rightarrow> False | Some k \<Rightarrow> k \<noteq> 0)"

definition getLimit :: "nat option \<Rightarrow> paginate option \<Rightarrow> nat option" where
  \<comment> \<open>of \<open>feathers-query-filters\<close>: with a pagination default, the requested limit or
      the default, capped by the maximum\<close>
  "getLimit limit pg =
     (case pg of
        None \<Rightarrow> limit
      | Some p \<Rightarrow>
          if truthy (pg_default p) then
            (let lower = (case limit of Some l \<Rightarrow> l | None \<Rightarrow> the (pg_default p))
             in Some (case pg_max p of None \<Rightarrow> lower | Some upper \<Rightarrow> min lower upper))
          else limit)"

definition query_filter :: "query \<Rightarrow> paginate option \<Rightarrow> filters \<times> query" where
  \<comment> \<open>\<open>filter(query, paginate)\<close> of \<open>feathers-query-filters\<close>: the control keys, and the
      query without them\<close>
  "query_filter q pg =
     (\<lparr> f_sort = q_sort q, f_limit = getLimit (q_limit q) pg,
        f_skip = q_skip q, f_select = q_select q \<rparr>,
      q\<lparr> q_sort := None, q_limit := None, q_skip := None, q_select := None \<rparr>)"

definition control_keys :: "query \<Rightarrow> string list" where
  "control_keys q =
     (if q_sort q = None then [] else [''$sort'']) @
     (if q_limit q = None then [] else [''$limit'']) @
     (if q_skip q = None then [] else [''$skip'']) @
     (if q_select q = None then [] else [''$select''])"

definition getWhere :: "query \<Rightarrow> where_clause \<times> string list" where
  \<comment> \<open>Modelled from the spec: \<open>utils.getWhere\<close> of \<open>src/utils.js\<close> is missing. It
      translates a query into the ORM's where option. The comparisons are the ORM's own
      here, so they carry over; the second component names the control keys that the
      query still holds, which come along as keys of the where option.\<close>
  "getWhere q = (q_conds q, control_keys q)"

definition getOrder :: "(string \<times> bool) list option \<Rightarrow> (string \<times> bool) list" where
  \<comment> \<open>Modelled from the spec: \<open>utils.getOrder\<close> of \<open>src/utils.js\<close> is missing. It
      translates \<open>$sort\<close> into the ORM's order option, field by field; no \<open>$sort\<close> is no
      order.\<close>
  "getOrder s = (case s of None \<Rightarrow> [] | Some ks \<Rightarrow> ks)"

datatype result = One item | Many "item list"

text \<open>
  \<open>select(params, this.id)\<close> of \<open>feathers-commons\<close> does two things. When it is called
  it pushes the id field onto the array \<open>params.query.$select\<close>, if there is one; this
  is the array that \<open>_find\<close> hands to the ORM as \<open>attributes\<close>, and the ORM reads it
  when it runs the query, after the push. And it returns a function that picks the
  fields of that array from a result, item by item for an array, into plain objects;
  without \<open>$select\<close> the result is left as it is. A name that a later call has pushed
  once more is picked once.
\<close>

definition select_params :: "params \<Rightarrow> string \<Rightarrow> params" where
  \<comment> \<open>the params once \<open>select(params, other)\<close> has been called\<close>
  "select_params ps other =
     ps\<lparr> p_query := (p_query ps)\<lparr> q_select := map_option (\<lambda>fs. fs @ [other]) (q_select (p_query ps)) \<rparr> \<rparr>"

definition convert :: "params \<Rightarrow> string \<Rightarrow> item \<Rightarrow> item" where
  "convert ps other it =
     (case q_select (p_query ps) of
        None \<Rightarrow> it
      | Some fs \<Rightarrow> Plain (pick (fs @ [other]) (dataValues it)))"

definition select :: "params \<Rightarrow> string \<Rightarrow> result \<Rightarrow> result" where
  \<comment> \<open>the function that \<open>select(params, other)\<close> returns\<close>
  "select ps other res =
     (case res of
        One r \<Rightarrow> One (convert ps other r)
      | Many rs \<Rightarrow> Many (map (convert ps other) rs))"

section \<open>The operations of the service\<close>

text \<open>
  Each operation takes the table and returns it with the outcome of the promise:
  \<open>Inl\<close> a rejection, \<open>Inr\<close> the value it resolves with. \<open>null\<close> as an id is
  \<open>JNull\<close>. The table and the outcome are what an operation returns here; the id
  field that \<open>select\<close> has pushed stays on the caller's \<open>$select\<close> array.
\<close>

record page =
  page_total :: nat
  page_limit :: "nat option"
  page_skip :: nat
  page_data :: "item list"

definition default_filter :: "query \<Rightarrow> filters \<times> query" where
  \<comment> \<open>the default of \<open>_find\<close>'s second parameter, \<open>filter\<close> without pagination\<close>
  "default_filter q = query_filter q None"

definition find_internal ::
  "service \<Rightarrow> params \<Rightarrow> (query \<Rightarrow> filters \<times> query) \<Rightarrow> database \<Rightarrow> database \<times> (error + page)" where
  \<comment> \<open>\<open>_find(params, getFilter = filter)\<close>; the params are those the ORM finds when it
      runs the query\<close>
  "find_internal svc ps getFilter d =
     (case getFilter (p_query ps) of (fs, qry) \<Rightarrow>
        let wh = getWhere qry;
            sq = p_sequelize ps;
            q = \<lparr> fo_where = (case s_where sq of None \<Rightarrow> fst wh | Some w \<Rightarrow> w),
                  fo_unknown = (case s_where sq of None \<Rightarrow> snd wh | Some w \<Rightarrow> []),
                  fo_order = (case s_order sq of None \<Rightarrow> getOrder (f_sort fs) | Some ks \<Rightarrow> ks),
                  fo_limit = (case s_limit sq of None \<Rightarrow> f_limit fs | Some n \<Rightarrow> Some n),
                  fo_offset = (case s_offset sq of None \<Rightarrow> f_skip fs | Some n \<Rightarrow> Some n),
                  fo_raw = (case s_raw sq of None \<Rightarrow> raw svc | Some b \<Rightarrow> b),
                  fo_attributes = (case f_select fs of None \<Rightarrow> s_attributes sq
                                   | Some a \<Rightarrow> Some a) \<rparr>
        in (case findAndCount q d of
              (d', Inl e) \<Rightarrow> (d', Inl (errorHandler e))
            | (d', Inr (cnt, rs)) \<Rightarrow>
                (d', Inr \<lparr> page_total = cnt,
                           page_limit = f_limit fs,
                           page_skip = (case f_skip fs of None \<Rightarrow> 0 | Some n \<Rightarrow> n),
                           page_data = rs \<rparr>)))"

datatype find_result = Page page | Bare "item list"

definition find_op :: "service \<Rightarrow> params \<Rightarrow> database \<Rightarrow> database \<times> (error + find_result)" where
  \<comment> \<open>\<open>find(params)\<close>\<close>
  "find_op svc ps d =
     (let pg = (case p_paginate ps of Some p \<Rightarrow> p | None \<Rightarrow> paginate svc)
      in case find_internal svc ps (\<lambda>w. query_filter w (Some pg)) d of
           (d', Inl e) \<Rightarrow> (d', Inl e)
         | (d', Inr result) \<Rightarrow>
             if \<not> truthy (pg_default pg) then (d', Inr (Bare (page_data result)))
             else (d', Inr (Page result)))"

definition get_internal ::
  "service \<Rightarrow> jsval \<Rightarrow> params \<Rightarrow> database \<Rightarrow> database \<times> (error + result)" where
  \<comment> \<open>\<open>_get(id, params)\<close>\<close>
  "get_internal svc i ps d =
     (let sq = p_sequelize ps
      in if s_include sq then
           (let wh = getWhere (p_query ps);
                q = \<lparr> fo_where = (case s_where sq of
                                     None \<Rightarrow> assign [(''id'', Eq i)] (fst wh)
                                   | Some w \<Rightarrow> w),
                      fo_unknown = (case s_where sq of None \<Rightarrow> snd wh | Some w \<Rightarrow> []),
                      fo_order = (case s_order sq of None \<Rightarrow> [] | Some ks \<Rightarrow> ks),
                      fo_limit = s_limit sq,
                      fo_offset = s_offset sq,
                      fo_raw = (case s_raw sq of None \<Rightarrow> False | Some b \<Rightarrow> b),
                      fo_attributes = s_attributes sq \<rparr>
            in case findAll q d of
                 (d', Inl e) \<Rightarrow> (d', Inl (errorHandler e))
               | (d', Inr found) \<Rightarrow>
                   (case found of
                      [] \<Rightarrow> (d', Inl (errorHandler (NotFound (NoRecordFor i))))
                    | r # _ \<Rightarrow> (d', Inr (select ps (idField svc) (One r)))))
         else
           (case findById (Model svc) (case s_raw sq of None \<Rightarrow> raw svc | Some b \<Rightarrow> b) i d of
              (d', inst) \<Rightarrow>
                (case inst of
                   None \<Rightarrow> (d', Inl (errorHandler (NotFound (NoRecordFor i))))
                 | Some r \<Rightarrow> (d', Inr (select ps (idField svc) (One r))))))"

definition getOrFind_internal ::
  "service \<Rightarrow> jsval \<Rightarrow> params \<Rightarrow> database \<Rightarrow> database \<times> (error + result)" where
  \<comment> \<open>\<open>_getOrFind(id, params)\<close>\<close>
  "getOrFind_internal svc i ps d =
     (if i = JNull then
        (case find_internal svc ps default_filter d of
           (d', Inl e) \<Rightarrow> (d', Inl e)
         | (d', Inr pg) \<Rightarrow> (d', Inr (Many (page_data pg))))
      else get_internal svc i ps d)"

definition get :: "service \<Rightarrow> jsval \<Rightarrow> params \<Rightarrow> database \<Rightarrow> database \<times> (error + result)" where
  "get svc i ps d =
     (case get_internal svc i ps d of
        (d', Inl e) \<Rightarrow> (d', Inl e)
      | (d', Inr res) \<Rightarrow> (d', Inr (select ps (idField svc) res)))"

datatype payload = Single row | Multiple "row list"


definition mapIds :: "service \<Rightarrow> page \<Rightarrow> jsval option list" where
  "mapIds svc pg = map (\<lambda>current. map_of (dataValues current) (idField svc)) (page_data pg)"

definition patch ::
  "service \<Rightarrow> jsval \<Rightarrow> row \<Rightarrow> params \<Rightarrow> database \<Rightarrow> database \<times> (error + result)" where
  \<comment> \<open>On the generic path \<open>select(params, this.id)\<close> of line 189 is called, and pushes,
      before the ORM runs the read that \<open>_find\<close> has asked for.\<close>
  "patch svc i data ps d =
     (let where0 = q_conds (snd (query_filter (p_query ps) None));
          wh = (if i \<noteq> JNull then AList.update (idField svc) (Eq i) where0 else where0);
          options_raw = (case s_raw (p_sequelize ps) of None \<Rightarrow> False | Some b \<Rightarrow> b)
      in if dialect (Model svc) = ''postgres'' \<and> p_returning ps \<noteq> Some False then
           (case orm_update (omit data (idField svc)) wh True options_raw d of (d', cnt, affected) \<Rightarrow>
              if i = JNull then (d', Inr (select ps (idField svc) (Many affected)))
              else (case affected of
                      [] \<Rightarrow> (d', Inl (errorHandler (NotFound (NoRecordFor i))))
                    | r # _ \<Rightarrow> (d', Inr (select ps (idField svc) (One r)))))
         else
           (case (if i = JNull
                  then (case find_internal svc (select_params ps (idField svc)) default_filter d of
                          (d0, Inl e) \<Rightarrow> (d0, Inl e)
                        | (d0, Inr pg) \<Rightarrow> (d0, Inr (mapIds svc pg)))
                  else (d, Inr [Some i])) of
              (d0, Inl e) \<Rightarrow> (d0, Inl (errorHandler e))
            | (d0, Inr idList) \<Rightarrow>
                let findParams = ps\<lparr> p_query := \<lparr> q_sort = None, q_limit = None, q_skip = None,
                                                   q_select = None,
                                                   q_conds = [(idField svc, In idList)] \<rparr> \<rparr>
                in (case orm_update (omit data (idField svc)) wh False options_raw d0 of
                      (d1, cnt, affected) \<Rightarrow>
                        if p_returning ps \<noteq> Some False then
                          (case getOrFind_internal svc i findParams d1 of
                             (d2, Inl e) \<Rightarrow> (d2, Inl (errorHandler e))
                           | (d2, Inr res) \<Rightarrow> (d2, Inr (select ps (idField svc) res)))
                        else (d1, Inr (select ps (idField svc) (Many []))))))"

definition update ::
  "service \<Rightarrow> jsval \<Rightarrow> payload \<Rightarrow> params \<Rightarrow> database \<Rightarrow> database \<times> (error + result)" where
  "update svc i data ps d =
     (let options_raw = (case s_raw (p_sequelize ps) of None \<Rightarrow> raw svc | Some b \<Rightarrow> b)
      in case data of
        Multiple xs \<Rightarrow>
          (d, Inl (BadRequest (Text ''Not replacing multiple records. Did you mean `patch`?'')))
      | Single x \<Rightarrow>
          (case findById (Model svc) False i d of (d', inst) \<Rightarrow>
             (case inst of
                None \<Rightarrow> (d', Inl (errorHandler (NotFound (NoRecordFor i))))
              | Some instance \<Rightarrow>
                  let copy = map (\<lambda>key. (key, case map_of x key of None \<Rightarrow> JNull | Some v \<Rightarrow> v))
                                 (keys (toJSON instance))
                  in (case instance_update (Model svc) options_raw i instance copy d' of
                        (d'', updated) \<Rightarrow>
                          (d'', Inr (select ps (idField svc)
                                      (One (if options_raw = False then updated
                                            else toJSON updated))))))))"

definition remove ::
  "service \<Rightarrow> jsval \<Rightarrow> params \<Rightarrow> database \<Rightarrow> database \<times> (error + result)" where
  \<comment> \<open>\<open>select(params, this.id)\<close> of line 240 is called, and pushes, before the ORM runs
      the read that \<open>_getOrFind\<close> has asked for; \<open>opts\<close> shares the query of \<open>params\<close>.\<close>
  "remove svc i ps d =
     (let opts = select_params ps (idField svc);
          where0 = q_conds (snd (query_filter (p_query ps) None));
          wh = (if i \<noteq> JNull then AList.update (idField svc) (Eq i) where0 else where0)
      in if p_returning ps \<noteq> Some False then
           (case getOrFind_internal svc i opts d of
              (d', Inl e) \<Rightarrow> (d', Inl (errorHandler e))
            | (d', Inr data) \<Rightarrow>
                (case destroy wh d' of (d'', cnt) \<Rightarrow> (d'', Inr (select ps (idField svc) data))))
         else
           (case destroy wh d of (d', cnt) \<Rightarrow> (d', Inr (select ps (idField svc) (Many [])))))"

section \<open>The options of a read, and an example table\<close>

definition read_options :: "service \<Rightarrow> params \<Rightarrow> paginate option \<Rightarrow> find_options" where
  \<comment> \<open>the options that \<open>_find\<close> hands to the ORM when its filter is \<open>filter\<close> with the
      given pagination\<close>
  "read_options svc ps pg =
     (let sq = p_sequelize ps
      in \<lparr> fo_where = (case s_where sq of None \<Rightarrow> q_conds (p_query ps) | Some w \<Rightarrow> w),
           fo_unknown = [],
           fo_order = (case s_order sq of None \<Rightarrow> getOrder (q_sort (p_query ps)) | Some ks \<Rightarrow> ks),
           fo_limit = (case s_limit sq of None \<Rightarrow> getLimit (q_limit (p_query ps)) pg
                       | Some n \<Rightarrow> Some n),
           fo_offset = (case s_offset sq of None \<Rightarrow> q_skip (p_query ps) | Some n \<Rightarrow> Some n),
           fo_raw = (case s_raw sq of None \<Rightarrow> raw svc | Some b \<Rightarrow> b),
           fo_attributes = (case q_select (p_query ps) of None \<Rightarrow> s_attributes sq
                            | Some a \<Rightarrow> Some a) \<rparr>)"

definition ann :: row where
  "ann = [(''id'', JNum 1), (''name'', JStr ''Ann''), (''age'', JNum 30)]"

definition bob :: row where
  "bob = [(''id'', JNum 2), (''name'', JStr ''Bob''), (''age'', JNum 40)]"

definition cy :: row where
  "cy = [(''id'', JNum 3), (''name'', JStr ''Cy''), (''age'', JNum 40)]"

definition dee :: row where
  "dee = [(''id'', JNum 4), (''name'', JStr ''Dee''), (''age'', JNum 5)]"

definition people :: database where
  "people = \<lparr> rows = [ann, bob, cy], calls = [] \<rparr>"

definition service_for :: "string \<Rightarrow> service" where
  "service_for dia =
     \<lparr> paginate = \<lparr>pg_default = None, pg_max = None\<rparr>,
       Model = \<lparr>primaryKey = ''id'', dialect = dia\<rparr>,
       idField = ''id'', events = None, raw = True \<rparr>"

definition paged_service :: service where
  "paged_service = (service_for ''sqlite'')\<lparr>paginate := \<lparr>pg_default = Some 2, pg_max = None\<rparr>\<rparr>"

definition empty_query :: query where
  "empty_query = \<lparr> q_sort = None, q_limit = None, q_skip = None, q_select = None, q_conds = [] \<rparr>"

definition no_passthrough :: sequelize_options where
  "no_passthrough = \<lparr> s_raw = None, s_include = False, s_where = None, s_order = None,
                      s_limit = None, s_offset = None, s_attributes = None \<rparr>"

definition plain :: params where
  "plain = \<lparr> p_query = empty_query, p_paginate = None,
             p_sequelize = no_passthrough, p_returning = None \<rparr>"

definition no_returning :: params where
  "no_returning = plain\<lparr>p_returning := Some False\<rparr>"

definition only_name :: params where
  "only_name = plain\<lparr>p_query := empty_query\<lparr>q_select := Some [''name'']\<rparr>\<rparr>"

definition part_a :: row where
  "part_a = [(''code'', JStr ''a1''), (''label'', JStr ''bolt'')]"

definition part_b :: row where
  "part_b = [(''code'', JStr ''b2''), (''label'', JStr ''nut'')]"

definition parts :: database where
  "parts = \<lparr> rows = [part_a, part_b], calls = [] \<rparr>"

definition coded_options :: options where
  "coded_options = \<lparr> o_paginate = None, o_Model = Some \<lparr>primaryKey = ''code'', dialect = ''sqlite''\<rparr>,
                     o_id = Some ''code'', o_events = None, o_raw = None \<rparr>"

definition coded_service :: service where
  "coded_service = \<lparr> paginate = \<lparr>pg_default = None, pg_max = None\<rparr>,
                     Model = \<lparr>primaryKey = ''code'', dialect = ''sqlite''\<rparr>,
                     idField = ''code'', events = None, raw = True \<rparr>"

definition eager :: params where
  "eager = plain\<lparr>p_sequelize := no_passthrough\<lparr>s_include := True\<rparr>\<rparr>"

definition forty :: params where
  "forty = plain\<lparr>p_query := empty_query\<lparr>q_conds := [(''age'', Eq (JNum 40))]\<rparr>\<rparr>"

definition quiet_forty :: params where
  "quiet_forty = forty\<lparr>p_returning := Some False\<rparr>"

definition aged_99 :: params where
  "aged_99 = plain\<lparr>p_query := empty_query\<lparr>q_conds := [(''age'', Eq (JNum 99))]\<rparr>\<rparr>"

definition zed :: row where
  "zed = [(''name'', JStr ''Zed'')]"

definition raw_false_service :: service where
  "raw_false_service = (service_for ''sqlite'')\<lparr>raw := False\<rparr>"

definition rob :: row where
  "rob = [(''name'', JStr ''Rob'')]"

definition three_through :: params where
  "three_through = plain\<lparr>p_sequelize := no_passthrough\<lparr>s_limit := Some 3\<rparr>\<rparr>"





section \<open>Facts about the model\<close>

lemmas example_defs = ann_def bob_def cy_def dee_def people_def service_for_def paged_service_def
  raw_false_service_def rob_def
  empty_query_def no_passthrough_def plain_def no_returning_def only_name_def forty_def
  quiet_forty_def aged_99_def zed_def

lemma rows_called [simp]: "rows (called c d) = rows d"
  by (simp add: called_def)

lemma calls_called [simp]: "calls (called c d) = calls d @ [c]"
  by (simp add: called_def)

lemma set_insort_by [simp]: "set (insort_by le x xs) = insert x (set xs)"
  by (induction xs) auto

lemma length_insort_by [simp]: "length (insort_by le x xs) = Suc (length xs)"
  by (induction xs) auto

lemma set_sort_by [simp]: "set (sort_by le xs) = set xs"
  by (induction xs) (simp_all add: sort_by_def)

lemma length_sort_by [simp]: "length (sort_by le xs) = length xs"
  by (induction xs) (simp_all add: sort_by_def)

lemma sort_by_no_order [simp]: "sort_by (row_le []) xs = xs"
  by (induction xs) (simp_all add: sort_by_def, case_tac xs, simp_all)

lemma errorHandler_NotFound [simp]: "errorHandler (NotFound m) = NotFound m"
  by (simp add: errorHandler_def)

lemma dataValues_wrap [simp]: "dataValues (wrap rw r) = r"
  by (simp add: wrap_def)

lemma map_of_assign: "map_of (assign r vals) = map_of r ++ map_of vals"
  by (simp add: assign_def merge_conv')

lemma map_of_omit: "map_of (omit r k) = (map_of r)(k := None)"
  by (simp add: omit_def delete_conv')

lemma assign_omit_keeps [simp]: "map_of (assign r (omit data k)) k = map_of r k"
  by (simp add: map_of_assign map_of_omit map_add_def)

lemma control_keys_filtered [simp]: "control_keys (snd (query_filter q pg)) = []"
  by (simp add: control_keys_def query_filter_def)

lemma q_conds_filtered [simp]: "q_conds (snd (query_filter q pg)) = q_conds q"
  by (simp add: query_filter_def)

lemma find_internal_filter:
  "find_internal svc ps (\<lambda>w. query_filter w pg) d =
     (called (FindAndCount (read_options svc ps pg)) d,
      Inr \<lparr> page_total = length (filter (matches (fo_where (read_options svc ps pg))) (rows d)),
            page_limit = getLimit (q_limit (p_query ps)) pg,
            page_skip = (case q_skip (p_query ps) of None \<Rightarrow> 0 | Some n \<Rightarrow> n),
            page_data = select_rows (read_options svc ps pg) (rows d) \<rparr>)"
  by (simp add: find_internal_def findAndCount_def read_options_def getWhere_def Let_def
        query_filter_def control_keys_def split: option.splits)

lemma find_internal_default:
  "find_internal svc ps default_filter d =
     (called (FindAndCount (read_options svc ps None)) d,
      Inr \<lparr> page_total = length (filter (matches (fo_where (read_options svc ps None))) (rows d)),
            page_limit = q_limit (p_query ps),
            page_skip = (case q_skip (p_query ps) of None \<Rightarrow> 0 | Some n \<Rightarrow> n),
            page_data = select_rows (read_options svc ps None) (rows d) \<rparr>)"
  using find_internal_filter [of svc ps None d]
  by (simp add: default_filter_def [abs_def] getLimit_def)

lemma get_internal_rows [simp]: "rows (fst (get_internal svc i ps d)) = rows d"
  by (simp add: get_internal_def findAll_def findById_def Let_def
        split: prod.splits list.splits option.splits sum.splits)

lemma find_internal_rows [simp]: "rows (fst (find_internal svc ps default_filter d)) = rows d"
  by (simp add: find_internal_default)

lemma getOrFind_internal_rows [simp]: "rows (fst (getOrFind_internal svc i ps d)) = rows d"
  by (simp add: getOrFind_internal_def find_internal_default)

lemma orm_update_rows:
  "rows (fst (orm_update vals w b rw d)) = map (\<lambda>r. if matches w r then assign r vals else r) (rows d)"
  by (simp add: orm_update_def Let_def)

lemma patch_rows:
  "rows (fst (patch svc i data ps d)) =
     map (\<lambda>r. if matches (if i \<noteq> JNull then AList.update (idField svc) (Eq i) (q_conds (p_query ps))
                            else q_conds (p_query ps)) r
               then assign r (omit data (idField svc)) else r) (rows d)"
  by (simp add: patch_def Let_def case_prod_beta orm_update_rows find_internal_default
        split: list.splits sum.splits)

lemma get_internal_calls:
  "calls (fst (get_internal svc i ps d)) = calls d @
     [if s_include (p_sequelize ps)
      then FindAll (case s_where (p_sequelize ps) of
                      None \<Rightarrow> assign [(''id'', Eq i)] (q_conds (p_query ps))
                    | Some w \<Rightarrow> w)
      else FindById i]"
  by (simp add: get_internal_def findAll_def findById_def getWhere_def Let_def
        split: list.splits option.splits sum.splits)

lemma patch_calls_explicit:
  "calls (fst (patch svc i data ps d)) = calls d @
       (let wh = (if i \<noteq> JNull then AList.update (idField svc) (Eq i) (q_conds (p_query ps))
                  else q_conds (p_query ps));
            vals = omit data (idField svc);
            ps1 = select_params ps (idField svc);
            idList = mapIds svc \<lparr> page_total = 0, page_limit = None, page_skip = 0,
                        page_data = select_rows (read_options svc ps1 None) (rows d) \<rparr>;
            findParams = ps\<lparr> p_query := \<lparr> q_sort = None, q_limit = None, q_skip = None,
                                  q_select = None, q_conds = [(idField svc, In idList)] \<rparr> \<rparr>
        in if dialect (Model svc) = ''postgres'' \<and> p_returning ps \<noteq> Some False
           then [Update vals wh True]
           else (if i = JNull then [FindAndCount (read_options svc ps1 None)] else []) @
                [Update vals wh False] @
                (if p_returning ps \<noteq> Some False
                 then [if i = JNull then FindAndCount (read_options svc findParams None)
                       else if s_include (p_sequelize ps)
                            then FindAll (case s_where (p_sequelize ps) of
                                   None \<Rightarrow> assign [(''id'', Eq i)] [(idField svc, In [Some i])]
                                 | Some w \<Rightarrow> w)
                            else FindById i]
                 else []))"
  by (simp add: patch_def Let_def case_prod_beta orm_update_def
          getOrFind_internal_def get_internal_calls find_internal_default mapIds_def
          split: list.splits sum.splits option.splits)


lemma control_keys_select_params [simp]:
  "control_keys (p_query (select_params ps k)) = control_keys (p_query ps)"
  by (simp add: control_keys_def select_params_def)

lemma q_conds_select_params [simp]: "q_conds (p_query (select_params ps k)) = q_conds (p_query ps)"
  by (simp add: select_params_def)

lemma p_sequelize_select_params [simp]: "p_sequelize (select_params ps k) = p_sequelize ps"
  by (simp add: select_params_def)










lemma length_select_rows:
  "length (select_rows q rs) \<le> (case fo_limit q of None \<Rightarrow> length rs | Some n \<Rightarrow> n)"
proof -
  have "length (filter (matches (fo_where q)) rs) \<le> length rs" by simp
  then show ?thesis
    by (auto simp add: select_rows_def Let_def le_diff_conv split: option.splits
          intro: trans_le_add1)
qed

lemma getLimit_Some:
  "truthy (pg_default pg) \<Longrightarrow> \<exists>l. getLimit lim (Some pg) = Some l"
  by (simp add: getLimit_def Let_def)

lemma getLimit_off:
  "\<not> truthy (pg_default pg) \<Longrightarrow> getLimit lim (Some pg) = getLimit lim None"
  by (simp add: getLimit_def)

lemma read_options_off:
  "\<not> truthy (pg_default pg) \<Longrightarrow> read_options svc ps (Some pg) = read_options svc ps None"
  by (simp add: read_options_def Let_def getLimit_off cong: option.case_cong)











section \<open>update refuses arrays\<close>

text \<open>
  C3. Whenever the data handed to \<open>update\<close> is an array, the operation rejects with
  BadRequest. The table comes back as it went in: no row has changed and no call to
  the ORM was made, neither a read nor a write.
\<close>

theorem update_array_rejects:
  "update svc i (Multiple xs) ps d =
     (d, Inl (BadRequest (Text ''Not replacing multiple records. Did you mean `patch`?'')))"
  by (simp add: update_def)

theorem update_array_rejects_witness:
  "update (service_for ''sqlite'') (JNum 1) (Multiple [bob, cy]) plain people =
     (people, Inl (BadRequest (Text ''Not replacing multiple records. Did you mean `patch`?'')))"
  using update_array_rejects [of "service_for ''sqlite''" "JNum 1" "[bob, cy]" plain people]
  by simp

section \<open>patch leaves the id alone\<close>

text \<open>
  C10. Whatever the arguments of \<open>patch\<close>, every stored row keeps the value it had
  under the configured id field. On the returning path and on the generic path alike
  the one update that is issued carries the data without the id field, and no other
  update is issued.
\<close>

theorem patch_keeps_id:
  "map (\<lambda>r. map_of r (idField svc)) (rows (fst (patch svc i data ps d))) =
     map (\<lambda>r. map_of r (idField svc)) (rows d) \<and>
   (\<exists>wh b. Update (omit data (idField svc)) wh b \<in> set (drop (length (calls d)) (calls (fst (patch svc i data ps d))))) \<and>
   (\<forall>vals wh b. Update vals wh b \<in> set (drop (length (calls d)) (calls (fst (patch svc i data ps d))))
      \<longrightarrow> vals = omit data (idField svc) \<and> map_of vals (idField svc) = None)"
proof -
  have "map (\<lambda>r. map_of r (idField svc)) (rows (fst (patch svc i data ps d))) =
     map (\<lambda>r. map_of r (idField svc)) (rows d)"
    by (simp add: patch_rows)
  moreover have "map_of (omit data (idField svc)) (idField svc) = None"
    by (simp add: map_of_omit)
  ultimately show ?thesis
    by (auto simp add: patch_calls_explicit Let_def)
qed

theorem patch_keeps_id_witness:
  "map (\<lambda>r. map_of r ''id'') (rows (fst (patch (service_for ''sqlite'') JNull [(''id'', JNum 7), (''age'', JNum 41)] plain people)))
     = [Some (JNum 1), Some (JNum 2), Some (JNum 3)] \<and>
   map (\<lambda>r. map_of r ''age'') (rows (fst (patch (service_for ''sqlite'') JNull [(''id'', JNum 7), (''age'', JNum 41)] plain people)))
     = [Some (JNum 41), Some (JNum 41), Some (JNum 41)]"
  using patch_keeps_id [of "service_for ''sqlite''" JNull "[(''id'', JNum 7), (''age'', JNum 41)]" plain people]
  by (simp add: example_defs patch_rows assign_def omit_def matches_def)

section \<open>The id field in eager-loading reads\<close>

text \<open>
  C2 at a failing input. The service is constructed with \<open>id: 'code'\<close> over a model
  whose primary key is \<open>code\<close>. A plain \<open>get\<close> of \<open>b2\<close> finds the record. The
  same \<open>get\<close> with eager loading filters on the field \<open>id\<close>, which no record has, and
  rejects with NotFound.
\<close>

theorem get_eager_ignores_id_field:
  "init (Some coded_options) = Inr coded_service \<and>
   idField coded_service = ''code'' \<and>
   get coded_service (JStr ''b2'') plain parts = (called (FindById (JStr ''b2'')) parts, Inr (One (Plain part_b))) \<and>
   get coded_service (JStr ''b2'') eager parts =
     (called (FindAll [(''id'', Eq (JStr ''b2''))]) parts, Inl (NotFound (NoRecordFor (JStr ''b2''))))"
  by (simp add: init_def coded_options_def coded_service_def get_def get_internal_def findById_def
        findAll_def select_def convert_def assign_def getWhere_def control_keys_def matches_def
        select_rows_def wrap_def Let_def
        part_a_def part_b_def parts_def eager_def example_defs)

section \<open>update and the stored record\<close>

text \<open>
  C4 at a failing input. A service with the default \<open>raw\<close> updates the record with id 2
  from data that names only \<open>name\<close>. The record is read, the replacement is handed to
  the instance's \<open>update\<close>, the call resolves, and the stored record is as it was:
  \<open>update\<close> hands its options, \<open>raw\<close> among them, to the instance's \<open>update\<close>,
  which then saves nothing. A service constructed with \<open>raw: false\<close> does save the
  replacement, but for the primary key, which the ORM keeps.
\<close>

theorem update_does_not_save:
  "rows (fst (update (service_for ''sqlite'') (JNum 2) (Single rob) plain people)) = [ann, bob, cy] \<and>
   calls (fst (update (service_for ''sqlite'') (JNum 2) (Single rob) plain people)) =
     [FindById (JNum 2),
      InstanceUpdate (JNum 2) [(''id'', JNull), (''name'', JStr ''Rob''), (''age'', JNull)]] \<and>
   isl (snd (update (service_for ''sqlite'') (JNum 2) (Single rob) plain people)) = False \<and>
   rows (fst (update raw_false_service (JNum 2) (Single rob) plain people)) =
     [ann, [(''id'', JNum 2), (''name'', JStr ''Rob''), (''age'', JNull)], cy]"
  by (simp add: update_def findById_def instance_update_def toJSON_def keys_def assign_def
        omit_def wrap_def select_def convert_def called_def Let_def example_defs)

section \<open>Missing records\<close>




section \<open>find and pagination\<close>

text \<open>
  C7, as the code has it. \<open>find\<close> paginates only when pagination is configured, that
  is when the pagination options in force (those of the call, else those of the
  service) have a default. Then it resolves with a page whose limit is set, whose skip
  is \<open>$skip\<close> or 0 without it, and whose total counts the rows that match the where
  option in force. The data of the page is no longer than the page's limit, unless a
  limit is passed through \<open>params.sequelize\<close>: that limit replaces the page's in the
  read and bounds the data, and the page still reports its own. Otherwise \<open>find\<close>
  resolves with the bare array of records that the unpaginated read returns.
\<close>

theorem find_pagination:
  "let pg = (case p_paginate ps of Some p \<Rightarrow> p | None \<Rightarrow> paginate svc) in
     if truthy (pg_default pg) then
       (\<exists>p l. snd (find_op svc ps d) = Inr (Page p) \<and> page_limit p = Some l \<and>
              length (page_data p) \<le> (case s_limit (p_sequelize ps) of None \<Rightarrow> l | Some n \<Rightarrow> n) \<and>
              page_skip p = (case q_skip (p_query ps) of None \<Rightarrow> 0 | Some n \<Rightarrow> n) \<and>
              page_total p =
                length (filter (matches (case s_where (p_sequelize ps) of
                                           None \<Rightarrow> q_conds (p_query ps) | Some w \<Rightarrow> w)) (rows d)))
     else snd (find_op svc ps d) = Inr (Bare (select_rows (read_options svc ps None) (rows d)))"
proof -
  define pg where "pg = (case p_paginate ps of Some p \<Rightarrow> p | None \<Rightarrow> paginate svc)"
  let ?q = "read_options svc ps (Some pg)"
  let ?p = "\<lparr> page_total = length (filter (matches (fo_where ?q)) (rows d)),
              page_limit = getLimit (q_limit (p_query ps)) (Some pg),
              page_skip = (case q_skip (p_query ps) of None \<Rightarrow> 0 | Some n \<Rightarrow> n),
              page_data = select_rows ?q (rows d) \<rparr>"
  have op: "snd (find_op svc ps d) =
              (if \<not> truthy (pg_default pg) then Inr (Bare (page_data ?p)) else Inr (Page ?p))"
    by (simp add: find_op_def pg_def [symmetric] Let_def find_internal_filter)
  show ?thesis
  proof (cases "truthy (pg_default pg)")
    case True
    obtain l where l: "getLimit (q_limit (p_query ps)) (Some pg) = Some l"
      using getLimit_Some [OF True] by blast
    have len: "length (select_rows ?q (rows d)) \<le>
                 (case s_limit (p_sequelize ps) of None \<Rightarrow> l | Some n \<Rightarrow> n)"
      using length_select_rows [of ?q "rows d"] l
      by (simp add: read_options_def Let_def split: option.splits)
    have w: "fo_where ?q = (case s_where (p_sequelize ps) of
                              None \<Rightarrow> q_conds (p_query ps) | Some w \<Rightarrow> w)"
      by (simp add: read_options_def Let_def)
    from True op l len w show ?thesis
      unfolding Let_def pg_def [symmetric] by simp
  next
    case False
    with op read_options_off [OF False] show ?thesis
      unfolding Let_def pg_def [symmetric] by simp
  qed
qed

text \<open>
  The claim as it was stated fails where a limit is passed through: with a page limit
  of 2 and \<open>sequelize: {limit: 3}\<close> the page reports the limit 2 and holds three
  records.
\<close>

theorem find_pagination_counterexample:
  "snd (find_op paged_service three_through people) =
     Inr (Page \<lparr> page_total = 3, page_limit = Some 2, page_skip = 0,
                 page_data = [Plain ann, Plain bob, Plain cy] \<rparr>)"
  by (simp add: find_op_def find_internal_filter read_options_def select_rows_def getLimit_def
        getOrder_def truthy_def matches_def wrap_def three_through_def Let_def example_defs)

theorem find_pagination_witness:
  "(\<exists>p l. snd (find_op paged_service plain people) = Inr (Page p)
      \<and> page_limit p = Some l \<and> length (page_data p) \<le> l \<and> page_skip p = 0 \<and> page_total p = 3)
   \<and> snd (find_op (service_for ''sqlite'') plain people) = Inr (Bare [Plain ann, Plain bob, Plain cy])"
  using find_pagination [where ps = plain and svc = paged_service and d = people]
    find_pagination [where ps = plain and svc = "service_for ''sqlite''" and d = people]
  by (simp add: example_defs truthy_def matches_def numeral_3_eq_3 read_options_def
        select_rows_def getLimit_def getOrder_def wrap_def)

section \<open>create and field selection\<close>




section \<open>The two strategies of patch\<close>

text \<open>
  C8. \<open>patch\<close> has two strategies: with the postgres dialect, unless \<open>$returning\<close> is
  false, one update with \<open>returning\<close>, whose affected rows are the result; otherwise the
  generic path. For a given id the generic path reads no ids before the update and
  reads the record back by the id alone, where the update uses the whole where option,
  the comparisons of the query included. So the strategies differ on the same table:
  for the record with id 1, whose age is 30, and the query \<open>{age: 99}\<close> neither updates a
  row; the returning strategy rejects with NotFound, and the generic strategy resolves
  with the record, unchanged.
\<close>

theorem patch_strategies_differ:
  "snd (patch (service_for ''postgres'') (JNum 1) zed aged_99 people)
     = Inl (NotFound (NoRecordFor (JNum 1))) \<and>
   rows (fst (patch (service_for ''postgres'') (JNum 1) zed aged_99 people)) = [ann, bob, cy] \<and>
   calls (fst (patch (service_for ''postgres'') (JNum 1) zed aged_99 people))
     = [Update zed [(''age'', Eq (JNum 99)), (''id'', Eq (JNum 1))] True] \<and>
   snd (patch (service_for ''sqlite'') (JNum 1) zed aged_99 people) = Inr (One (Plain ann)) \<and>
   rows (fst (patch (service_for ''sqlite'') (JNum 1) zed aged_99 people)) = [ann, bob, cy] \<and>
   calls (fst (patch (service_for ''sqlite'') (JNum 1) zed aged_99 people))
     = [Update zed [(''age'', Eq (JNum 99)), (''id'', Eq (JNum 1))] False, FindById (JNum 1)]"
  by (simp add: patch_def Let_def query_filter_def orm_update_def getOrFind_internal_def
        get_internal_def findById_def select_def convert_def wrap_def called_def matches_def
        omit_def example_defs)

section \<open>remove\<close>

text \<open>
  C9. With a given id \<open>remove\<close> reads the record by the id alone and then deletes by
  the whole where option, the comparisons of the query included. For the record with
  id 1, whose age is 30, and the query \<open>{age: 99}\<close> it resolves with the record as the
  removed one, and deletes no row.
\<close>

theorem remove_reports_kept_record:
  "snd (remove (service_for ''sqlite'') (JNum 1) aged_99 people) = Inr (One (Plain ann)) \<and>
   rows (fst (remove (service_for ''sqlite'') (JNum 1) aged_99 people)) = [ann, bob, cy] \<and>
   calls (fst (remove (service_for ''sqlite'') (JNum 1) aged_99 people))
     = [FindById (JNum 1), Destroy [(''age'', Eq (JNum 99)), (''id'', Eq (JNum 1))]]"
  by (simp add: remove_def Let_def query_filter_def destroy_def getOrFind_internal_def
        get_internal_def findById_def select_def select_params_def convert_def wrap_def
        called_def matches_def example_defs)

section \<open>patch of all matching records\<close>




end
